theory Spec2Isabelle
  imports Complex_Main "HOL-Library.Sublist" "HOL-Library.AList"
begin

section \<open>Values, items and tables\<close>

text \<open>
  The handlers exchange Python dictionaries with the store and with the caller. A
  dictionary is an association list in insertion order, looked up with \<open>map_of\<close>
  (Python's \<open>d.get(k)\<close>); the values are the JSON-like values the code builds.
  Numbers are rationals: the only numbers of the program are the literal amounts of
  the offer candidates.
\<close>

datatype val =
    Str string
  | Num rat
  | Bool bool
  | Null
  | Lst "val list"
  | Obj "(string \<times> val) list"

type_synonym item = "(string \<times> val) list"

text \<open>A table maps the primary key \<open>id\<close> to the stored item.\<close>

type_synonym table = "(string \<times> item) list"

text \<open>
  The three tables of the program. \<open>faults_seen\<close> is instrumentation: it counts
  the store operations that raised so far, so that a failure that a function swallows
  stays observable.
\<close>

record store =
  conversations :: table
  messages :: table
  offers :: table
  faults_seen :: nat

datatype table_name = Conversations | Messages | Offers

fun table_of :: "table_name \<Rightarrow> store \<Rightarrow> table" where
  "table_of Conversations s = conversations s"
| "table_of Messages s = messages s"
| "table_of Offers s = offers s"

fun set_table :: "table_name \<Rightarrow> table \<Rightarrow> store \<Rightarrow> store" where
  "set_table Conversations t s = s\<lparr>conversations := t\<rparr>"
| "set_table Messages t s = s\<lparr>messages := t\<rparr>"
| "set_table Offers t s = s\<lparr>offers := t\<rparr>"

section \<open>Store operations that may raise\<close>

text \<open>
  Every call of the store client in the four handlers has a label. The environment
  says which calls raise (a transport or backend failure); a handler makes each
  labelled call at most once per request.
\<close>

datatype store_call =
    Put_Conversation | Put_Initial_Message
  | Get_Conversation | Put_User_Message | Put_Ai_Message | Query_Message_Count
  | Put_Offer | Touch_Conversation
  | Get_Offer | Update_Offer | Close_Conversation | Put_Final_Message
  | Query_Messages | Query_Offers

datatype 'a outcome = Ok 'a | Raise

type_synonym 'a cmd = "store \<Rightarrow> 'a outcome \<times> store"

definition return :: "'a \<Rightarrow> 'a cmd" where
  "return a s = (Ok a, s)"

definition bind :: "'a cmd \<Rightarrow> ('a \<Rightarrow> 'b cmd) \<Rightarrow> 'b cmd" where
  "bind m f s = (case m s of (Ok a, s') \<Rightarrow> f a s' | (Raise, s') \<Rightarrow> (Raise, s'))"

definition attempt :: "(store_call \<Rightarrow> bool) \<Rightarrow> store_call \<Rightarrow> 'a cmd \<Rightarrow> 'a cmd" where
  "attempt raises c m s =
     (if raises c then (Raise, s\<lparr>faults_seen := Suc (faults_seen s)\<rparr>) else m s)"

definition no_faults :: "store_call \<Rightarrow> bool" where
  "no_faults c = False"

definition get_item ::
  "(store_call \<Rightarrow> bool) \<Rightarrow> store_call \<Rightarrow> table_name \<Rightarrow> string \<Rightarrow> item option cmd" where
  "get_item raises c t k = attempt raises c (\<lambda>s. (Ok (map_of (table_of t s) k), s))"

text \<open>\<open>put_item\<close> is an unconditional upsert under the item's \<open>id\<close>.\<close>

definition put_item ::
  "(store_call \<Rightarrow> bool) \<Rightarrow> store_call \<Rightarrow> table_name \<Rightarrow> item \<Rightarrow> unit cmd" where
  "put_item raises c t it = attempt raises c (\<lambda>s.
     (case map_of it ''id'' of
        Some (Str k) \<Rightarrow> (Ok (), set_table t (AList.update k it (table_of t s)) s)
      | _ \<Rightarrow> (Raise, s)))"

fun set_attrs :: "(string \<times> val) list \<Rightarrow> item \<Rightarrow> item" where
  "set_attrs [] it = it"
| "set_attrs ((a, v) # sets) it = set_attrs sets (AList.update a v it)"

text \<open>
  \<open>update_item\<close> with a \<open>SET\<close> expression changes the named attributes of the
  item under the key and keeps the others; where the key is absent the store creates
  an item holding the key and the attributes set.
\<close>

definition update_item ::
  "(store_call \<Rightarrow> bool) \<Rightarrow> store_call \<Rightarrow> table_name \<Rightarrow> string \<Rightarrow> (string \<times> val) list \<Rightarrow> unit cmd"
  where
  "update_item raises c t k sets = attempt raises c (\<lambda>s.
     (let old = (case map_of (table_of t s) k of Some it \<Rightarrow> it | None \<Rightarrow> [(''id'', Str k)])
      in (Ok (), set_table t (AList.update k (set_attrs sets old) (table_of t s)) s)))"

text \<open>The query on the index \<open>ConversationIdIndex\<close>: the items of one conversation.\<close>

definition by_conversation :: "string \<Rightarrow> table \<Rightarrow> item list" where
  "by_conversation conversation_id t =
     filter (\<lambda>it. map_of it ''conversationId'' = Some (Str conversation_id)) (map snd t)"

definition query_items ::
  "(store_call \<Rightarrow> bool) \<Rightarrow> store_call \<Rightarrow> table_name \<Rightarrow> string \<Rightarrow> item list cmd" where
  "query_items raises c t conversation_id =
     attempt raises c (\<lambda>s. (Ok (by_conversation conversation_id (table_of t s)), s))"

section \<open>Requests, responses and the environment\<close>

text \<open>
  An event either has no body, or a body that is not JSON, or a JSON object; the
  fields of the object are strings, as the data model has them.
\<close>

datatype event = No_Body | Bad_Json | Body "string \<rightharpoonup> string"

record response =
  statusCode :: nat
  headers :: "(string \<times> string) list"
  body :: val

text \<open>The body is kept as the value handed to \<open>json.dumps\<close>.\<close>

definition create_response :: "nat \<Rightarrow> val \<Rightarrow> response" where
  "create_response status_code b =
     \<lparr>statusCode = status_code,
      headers = [(''Content-Type'', ''application/json''),
                 (''Access-Control-Allow-Origin'', ''*''),
                 (''Access-Control-Allow-Headers'', ''Content-Type''),
                 (''Access-Control-Allow-Methods'', ''POST, OPTIONS'')],
      body = b\<rparr>"

definition create_response_get :: "nat \<Rightarrow> val \<Rightarrow> response" where
  "create_response_get status_code b =
     \<lparr>statusCode = status_code,
      headers = [(''Content-Type'', ''application/json''),
                 (''Access-Control-Allow-Origin'', ''*''),
                 (''Access-Control-Allow-Headers'', ''Content-Type''),
                 (''Access-Control-Allow-Methods'', ''GET, OPTIONS'')],
      body = b\<rparr>"

definition error_body :: "string \<Rightarrow> val" where
  "error_body msg = Obj [(''error'', Str msg)]"

text \<open>
  What a request reads from outside the store, in the order of the calls:
  \<open>uuid_a\<close>, \<open>uuid_b\<close>, \<open>uuid_c\<close> are the results of the first, second and third
  \<open>uuid.uuid4()\<close>; \<open>clock_a\<close>, \<open>clock_b\<close> the first and second
  \<open>datetime.utcnow().isoformat() + 'Z'\<close> and \<open>clock_week\<close> the expiry
  \<open>(datetime.utcnow() + timedelta(days=7)).isoformat() + 'Z'\<close>; \<open>choice_a\<close> and
  \<open>choice_b\<close> the indices drawn by the first and second \<open>random.choice\<close>;
  \<open>random_a\<close> the value of \<open>random.random()\<close>; \<open>fails\<close> the store calls that raise.
\<close>

record env =
  uuid_a :: string
  uuid_b :: string
  uuid_c :: string
  clock_a :: string
  clock_b :: string
  clock_week :: string
  choice_a :: nat
  choice_b :: nat
  random_a :: rat
  fails :: "store_call \<Rightarrow> bool"

text \<open>\<open>random.choice(xs)\<close> with the drawn index made explicit.\<close>

definition choice :: "nat \<Rightarrow> 'a list \<Rightarrow> 'a" where
  "choice i xs = xs ! (i mod length xs)"

text \<open>The loop over \<open>required_fields\<close>: the first field that the body lacks.\<close>

fun missing_field :: "string list \<Rightarrow> (string \<rightharpoonup> string) \<Rightarrow> string option" where
  "missing_field [] b = None"
| "missing_field (field # rest) b =
     (if b field = None then Some field else missing_field rest b)"

text \<open>The handler boundary: \<open>except Exception\<close> turns a raise into the response 500.\<close>

definition handler_boundary :: "response cmd \<Rightarrow> store \<Rightarrow> response \<times> store" where
  "handler_boundary m s =
     (case m s of
        (Ok r, s') \<Rightarrow> (r, s')
      | (Raise, s') \<Rightarrow> (create_response 500 (error_body ''Internal server error''), s'))"

section \<open>Strings\<close>

text \<open>\<open>str.lower()\<close> on the ASCII letters; every other character is kept.\<close>

definition lower_char :: "char \<Rightarrow> char" where
  "lower_char c =
     (case map_of (zip ''ABCDEFGHIJKLMNOPQRSTUVWXYZ'' ''abcdefghijklmnopqrstuvwxyz'') c of
        Some d \<Rightarrow> d
      | None \<Rightarrow> c)"

definition lower :: "string \<Rightarrow> string" where
  "lower s = map lower_char s"

text \<open>Python's \<open>w in s\<close> on strings: \<open>w\<close> occurs in \<open>s\<close> as a contiguous run.\<close>

fun contains :: "string \<Rightarrow> string \<Rightarrow> bool" where
  "contains [] w = (w = [])"
| "contains (c # cs) w = (prefix w (c # cs) \<or> contains cs w)"

definition any_word_in :: "string list \<Rightarrow> string \<Rightarrow> bool" where
  "any_word_in words s = list_ex (contains s) words"

section \<open>start\_conversation.py\<close>

definition generate_initial_message :: "string \<Rightarrow> string \<Rightarrow> string" where
  "generate_initial_message reason reason_text =
     (let reason_responses =
        [(''too_expensive'', ''I understand that cost is a concern. Let me see what special offers I can provide to make this more affordable for you.''),
         (''not_using'', ''I hear you - sometimes we sign up for things and don't use them as much as expected. Let me show you some options that might work better.''),
         (''technical_issues'', ''I'm sorry you're experiencing technical difficulties. Let me help resolve those issues and see what we can do to improve your experience.''),
         (''found_alternative'', ''I understand you've found another option. Before you go, let me show you some exclusive benefits that might change your mind.''),
         (''other'', ''Thank you for sharing that with me: '' @ reason_text @ ''. I'd like to understand your concerns better and see how we can address them.'')]
      in case map_of reason_responses reason of
           Some text \<Rightarrow> text
         | None \<Rightarrow> ''I understand your concerns about: '' @ reason_text @ ''. Let me see what I can do to help address this situation.'')"

definition conversation_item_of :: "env \<Rightarrow> (string \<rightharpoonup> string) \<Rightarrow> item" where
  "conversation_item_of e b =
     [(''id'', Str (uuid_a e)),
      (''userId'', Str (the (b ''userId''))),
      (''subscriptionId'', Str (the (b ''subscriptionId''))),
      (''status'', Str ''active''),
      (''outcome'', Null),
      (''reason'', Str (the (b ''reason''))),
      (''reasonText'', Str (the (b ''reasonText''))),
      (''createdAt'', Str (clock_a e)),
      (''updatedAt'', Str (clock_a e))]"

definition initial_message_item_of :: "env \<Rightarrow> (string \<rightharpoonup> string) \<Rightarrow> item" where
  "initial_message_item_of e b =
     [(''id'', Str (uuid_b e)),
      (''conversationId'', Str (uuid_a e)),
      (''content'', Str (generate_initial_message (the (b ''reason'')) (the (b ''reasonText'')))),
      (''sender'', Str ''ai''),
      (''timestamp'', Str (clock_a e))]"

definition start_conversation_handler :: "env \<Rightarrow> event \<Rightarrow> store \<Rightarrow> response \<times> store" where
  "start_conversation_handler e ev = handler_boundary
     (case ev of
        No_Body \<Rightarrow> return (create_response 400 (error_body ''Missing request body''))
      | Bad_Json \<Rightarrow> return (create_response 400 (error_body ''Invalid JSON in request body''))
      | Body b \<Rightarrow>
         (case missing_field [''userId'', ''subscriptionId'', ''reason'', ''reasonText''] b of
            Some field \<Rightarrow>
              return (create_response 400 (error_body (''Missing required field: '' @ field)))
          | None \<Rightarrow>
              (let conversation_item = conversation_item_of e b;
                   message_item = initial_message_item_of e b
               in bind (put_item (fails e) Put_Conversation Conversations conversation_item) (\<lambda>_.
                  bind (put_item (fails e) Put_Initial_Message Messages message_item) (\<lambda>_.
                  return (create_response 200
                    (Obj [(''success'', Bool True),
                          (''data'', Obj (AList.update ''messages'' (Lst [Obj message_item])
                                            conversation_item))])))))))"

section \<open>send\_message.py\<close>

text \<open>\<open>get_conversation\<close> reads the conversation and checks the owner; its own
  \<open>except Exception\<close> turns a raise of the store into \<open>None\<close>.\<close>

definition get_conversation :: "(store_call \<Rightarrow> bool) \<Rightarrow> string \<Rightarrow> string \<Rightarrow> item option cmd" where
  "get_conversation raises conversation_id user_id s =
     (case get_item raises Get_Conversation Conversations conversation_id s of
        (Ok conversation, s') \<Rightarrow>
          (case conversation of
             Some c \<Rightarrow>
               (if c \<noteq> [] \<and> map_of c ''userId'' = Some (Str user_id)
                then (Ok (Some c), s') else (Ok None, s'))
           | None \<Rightarrow> (Ok None, s'))
      | (Raise, s') \<Rightarrow> (Ok None, s'))"

text \<open>\<open>get_message_count\<close>: the \<open>Count\<close> of the query; a raise of the store gives 0.\<close>

definition get_message_count :: "(store_call \<Rightarrow> bool) \<Rightarrow> string \<Rightarrow> int cmd" where
  "get_message_count raises conversation_id s =
     (case query_items raises Query_Message_Count Messages conversation_id s of
        (Ok items, s') \<Rightarrow> (Ok (int (length items)), s')
      | (Raise, s') \<Rightarrow> (Ok 0, s'))"

definition pricing_responses :: "string list" where
  "pricing_responses =
     [''I completely understand that budget is important. Let me see what special pricing options I can offer you.'',
      ''Cost is definitely a valid concern. I have some exclusive discounts that might help make this more affordable.'',
      ''I hear you on the pricing. Let me check what promotional offers are available for valued customers like you.'']"

definition technical_responses :: "string list" where
  "technical_responses =
     [''I'm sorry you're experiencing technical difficulties. Let me help resolve those issues and offer you something for the inconvenience.'',
      ''Technical problems can be really frustrating. I want to make this right for you with both a solution and a special offer.'',
      ''I apologize for the technical issues. Let me see how we can fix this and provide you with some compensation.'']"

definition usage_responses :: "string list" where
  "usage_responses =
     [''I understand that life gets busy and priorities change. Let me show you some flexible options that might work better for your schedule.'',
      ''That makes perfect sense. Maybe we can find a plan that better fits your current lifestyle and usage patterns.'',
      ''I totally get that - sometimes our needs change. Let me offer you some alternatives that might be more suitable.'']"

definition competitor_responses :: "string list" where
  "competitor_responses =
     [''I understand you're exploring other options. Before you decide, let me show you some exclusive benefits that our competitors don't offer.'',
      ''That's completely understandable. I'd love to show you some unique features and offers that might change your perspective.'',
      ''I appreciate you being upfront about that. Let me present some special advantages that are only available to our existing customers.'']"

definition generic_responses :: "string list" where
  "generic_responses =
     [''I really appreciate you sharing that with me. Let me see what I can do to address your concerns.'',
      ''Thank you for explaining your situation. I want to find the best solution for you.'',
      ''I hear what you're saying, and I want to make sure we find something that works for you.'',
      ''That's valuable feedback. Let me see what options I have available to help with your situation.'']"

text \<open>The conversation is a parameter of the source function that its body never reads.\<close>

definition generate_ai_response :: "nat \<Rightarrow> string \<Rightarrow> item \<Rightarrow> string" where
  "generate_ai_response i user_message conversation =
     (let user_message_lower = lower user_message;
          responses =
            (if any_word_in [''expensive'', ''cost'', ''money'', ''afford'', ''price''] user_message_lower
               then pricing_responses
             else if any_word_in [''technical'', ''bug'', ''error'', ''problem'', ''issue''] user_message_lower
               then technical_responses
             else if any_word_in [''time'', ''busy'', ''use'', ''using''] user_message_lower
               then usage_responses
             else if any_word_in [''competitor'', ''alternative'', ''found'', ''better''] user_message_lower
               then competitor_responses
             else generic_responses)
      in choice i responses)"

text \<open>
  \<open>r\<close> is the value that \<open>random.random()\<close> returns in the branch taken. The
  source compares floating-point numbers; the model compares rationals and reads the
  literals \<open>0.2\<close> and \<open>0.4\<close> as written.
\<close>

definition should_generate_offer :: "rat \<Rightarrow> int \<Rightarrow> string \<Rightarrow> bool" where
  "should_generate_offer r message_count user_message =
     (if message_count < 4 then False
      else
        (let user_message_lower = lower user_message;
             trigger_words = [''expensive'', ''cost'', ''technical'', ''problem'', ''issue'',
                              ''better'', ''competitor'']
         in if any_word_in trigger_words user_message_lower then r > 0.2 else r > 0.4))"

definition offer_type ::
  "string \<Rightarrow> string \<Rightarrow> string \<Rightarrow> (string \<times> val) list \<Rightarrow> (string \<times> val) list \<Rightarrow> item" where
  "offer_type ty title description savings details =
     [(''type'', Str ty), (''title'', Str title), (''description'', Str description),
      (''savings'', Obj savings), (''details'', Obj details)]"

definition offer_types_too_expensive :: "item list" where
  "offer_types_too_expensive =
     [offer_type ''discount'' ''50% Off for 3 Months''
        ''Get 50% off your subscription for the next 3 months, then continue at the regular price.''
        [(''monthly'', Num 15), (''total'', Num 45)]
        [(''originalPrice'', Num 29.99), (''newPrice'', Num 14.99)],
      offer_type ''discount'' ''2 Months Free''
        ''Get 2 months completely free, then resume your regular billing cycle.''
        [(''monthly'', Num 30), (''total'', Num 60)]
        [(''originalPrice'', Num 29.99), (''freeMonths'', Num 2)]]"

definition offer_types_technical_issues :: "item list" where
  "offer_types_technical_issues =
     [offer_type ''discount'' ''1 Month Free + Priority Support''
        ''Get 1 month free and priority technical support to resolve any issues.''
        [(''monthly'', Num 30), (''total'', Num 30)]
        [(''originalPrice'', Num 29.99), (''freeMonths'', Num 1)],
      offer_type ''pause'' ''Pause + Technical Resolution''
        ''Pause your subscription while we resolve technical issues, then resume with 1 month free.''
        [(''monthly'', Num 30), (''total'', Num 30)]
        [(''pauseDuration'', Num 1), (''freeMonths'', Num 1)]]"

definition offer_types_not_using :: "item list" where
  "offer_types_not_using =
     [offer_type ''pause'' ''Pause for 3 Months''
        ''Pause your subscription for up to 3 months and resume whenever you're ready.''
        [(''monthly'', Num 30), (''total'', Num 90)]
        [(''pauseDuration'', Num 3)],
      offer_type ''discount'' ''70% Off for 6 Months''
        ''Try us again at 70% off for 6 months - perfect for getting back into the habit.''
        [(''monthly'', Num 21), (''total'', Num 126)]
        [(''originalPrice'', Num 29.99), (''newPrice'', Num 8.99)]]"

definition offer_types_default :: "item list" where
  "offer_types_default =
     [offer_type ''discount'' ''40% Off for 4 Months''
        ''Get 40% off your subscription for the next 4 months.''
        [(''monthly'', Num 12), (''total'', Num 48)]
        [(''originalPrice'', Num 29.99), (''newPrice'', Num 17.99)],
      offer_type ''pause'' ''Flexible Pause Option''
        ''Pause your subscription for up to 2 months and resume when convenient.''
        [(''monthly'', Num 30), (''total'', Num 60)]
        [(''pauseDuration'', Num 2)]]"

text \<open>\<open>d[k]\<close> on a dictionary that has the key.\<close>

definition subscript :: "item \<Rightarrow> string \<Rightarrow> val" where
  "subscript d k = the (map_of d k)"

definition generate_retention_offer :: "env \<Rightarrow> string \<Rightarrow> item \<Rightarrow> item" where
  "generate_retention_offer e conversation_id conversation =
     (let offer_id = uuid_c e;
          timestamp = clock_b e;
          expires_at = clock_week e;
          reason = (case map_of conversation ''reason'' of Some v \<Rightarrow> v | None \<Rightarrow> Str ''other'');
          offer_types =
            (if reason = Str ''too_expensive'' then offer_types_too_expensive
             else if reason = Str ''technical_issues'' then offer_types_technical_issues
             else if reason = Str ''not_using'' then offer_types_not_using
             else offer_types_default);
          selected_offer = choice (choice_b e) offer_types
      in [(''id'', Str offer_id),
          (''conversationId'', Str conversation_id),
          (''type'', subscript selected_offer ''type''),
          (''title'', subscript selected_offer ''title''),
          (''description'', subscript selected_offer ''description''),
          (''savings'', subscript selected_offer ''savings''),
          (''details'', subscript selected_offer ''details''),
          (''terms'', Lst [Str ''Offer valid for existing customers only'',
                           Str ''Cannot be combined with other offers'',
                           Str ''Subscription will auto-renew at regular price after promotional period'']),
          (''expiresAt'', Str expires_at),
          (''createdAt'', Str timestamp),
          (''status'', Str ''pending'')])"

definition user_message_item_of :: "env \<Rightarrow> string \<Rightarrow> string \<Rightarrow> item" where
  "user_message_item_of e conversation_id user_message =
     [(''id'', Str (uuid_a e)),
      (''conversationId'', Str conversation_id),
      (''content'', Str user_message),
      (''sender'', Str ''user''),
      (''timestamp'', Str (clock_a e))]"

definition ai_message_item_of :: "env \<Rightarrow> string \<Rightarrow> string \<Rightarrow> item" where
  "ai_message_item_of e conversation_id ai_response =
     [(''id'', Str (uuid_b e)),
      (''conversationId'', Str conversation_id),
      (''content'', Str ai_response),
      (''sender'', Str ''ai''),
      (''timestamp'', Str (clock_a e))]"

text \<open>Lines 68 to 73: the offer of this request, if one is generated.\<close>

definition offer_step :: "env \<Rightarrow> string \<Rightarrow> string \<Rightarrow> item \<Rightarrow> int \<Rightarrow> item option cmd" where
  "offer_step e conversation_id user_message conversation message_count =
     (if should_generate_offer (random_a e) message_count user_message then
        (let offer = generate_retention_offer e conversation_id conversation
         in if offer \<noteq> []
            then bind (put_item (fails e) Put_Offer Offers offer) (\<lambda>_. return (Some offer))
            else return (Some offer))
      else return None)"

definition send_response :: "item \<Rightarrow> item option \<Rightarrow> response" where
  "send_response ai_message_item offer =
     (let response_data = [(''message'', Obj ai_message_item)];
          response_data =
            (case offer of
               Some off \<Rightarrow>
                 (if off \<noteq> [] then AList.update ''offer'' (Obj off) response_data
                  else response_data)
             | None \<Rightarrow> response_data)
      in create_response 200 (Obj [(''success'', Bool True), (''data'', Obj response_data)]))"

definition send_message_handler :: "env \<Rightarrow> event \<Rightarrow> store \<Rightarrow> response \<times> store" where
  "send_message_handler e ev = handler_boundary
     (case ev of
        No_Body \<Rightarrow> return (create_response 400 (error_body ''Missing request body''))
      | Bad_Json \<Rightarrow> return (create_response 400 (error_body ''Invalid JSON in request body''))
      | Body b \<Rightarrow>
         (case missing_field [''conversationId'', ''message'', ''userId''] b of
            Some field \<Rightarrow>
              return (create_response 400 (error_body (''Missing required field: '' @ field)))
          | None \<Rightarrow>
              (let conversation_id = the (b ''conversationId'');
                   user_message = the (b ''message'');
                   user_id = the (b ''userId'')
               in bind (get_conversation (fails e) conversation_id user_id) (\<lambda>conversation.
                  case conversation of
                    None \<Rightarrow> return (create_response 404 (error_body ''Conversation not found''))
                  | Some conversation \<Rightarrow>
                     (let user_message_item = user_message_item_of e conversation_id user_message
                      in bind (put_item (fails e) Put_User_Message Messages user_message_item) (\<lambda>_.
                         let ai_response = generate_ai_response (choice_a e) user_message conversation;
                             ai_message_item = ai_message_item_of e conversation_id ai_response
                         in bind (put_item (fails e) Put_Ai_Message Messages ai_message_item) (\<lambda>_.
                            bind (get_message_count (fails e) conversation_id) (\<lambda>message_count.
                            bind (offer_step e conversation_id user_message conversation message_count) (\<lambda>offer.
                            bind (update_item (fails e) Touch_Conversation Conversations conversation_id
                                    [(''updatedAt'', Str (clock_a e))]) (\<lambda>_.
                            return (send_response ai_message_item offer)))))))))))"

section \<open>handle\_offer.py\<close>

definition acceptance_messages :: "string \<Rightarrow> string list" where
  "acceptance_messages title_lower =
     [''Wonderful! I'm so glad we could work this out. Your '' @ title_lower @ '' is now active on your account. Thank you for staying with us!'',
      ''Excellent choice! Your '' @ title_lower @ '' has been applied to your account. We really appreciate your continued loyalty.'',
      ''Perfect! I've activated your '' @ title_lower @ ''. You should see the changes reflected in your next billing cycle. Thanks for giving us another chance!'',
      ''Great news! Your '' @ title_lower @ '' is now live. We're thrilled to have you continue as part of our community!'']"

definition rejection_messages :: "string list" where
  "rejection_messages =
     [''I understand, and I respect your decision. Your cancellation will be processed as requested. We're sorry to see you go, but you're always welcome back.'',
      ''I completely understand. We'll proceed with your cancellation. Thank you for giving us the opportunity to try to address your concerns.'',
      ''No problem at all - I appreciate you taking the time to consider our offer. Your cancellation will be processed, and we hope to see you again in the future.'',
      ''That's perfectly fine. We'll go ahead with the cancellation as you requested. Thank you for being a customer, and we wish you all the best.'']"

text \<open>
  \<open>offer_title.lower()\<close> needs a string: on a stored title of another type the call
  raises, which the handler boundary turns into 500.
\<close>

definition generate_final_message :: "nat \<Rightarrow> string \<Rightarrow> item \<Rightarrow> string cmd" where
  "generate_final_message i action offer s =
     (if action = ''accept'' then
        (case (case map_of offer ''title'' of Some v \<Rightarrow> v | None \<Rightarrow> Str ''special offer'') of
           Str offer_title \<Rightarrow> (Ok (choice i (acceptance_messages (lower offer_title))), s)
         | _ \<Rightarrow> (Raise, s))
      else (Ok (choice i rejection_messages), s))"

definition final_message_item_of :: "env \<Rightarrow> string \<Rightarrow> string \<Rightarrow> item" where
  "final_message_item_of e conversation_id final_message =
     [(''id'', Str (uuid_a e)),
      (''conversationId'', Str conversation_id),
      (''content'', Str final_message),
      (''sender'', Str ''ai''),
      (''timestamp'', Str (clock_a e))]"

definition handle_offer_handler :: "env \<Rightarrow> event \<Rightarrow> store \<Rightarrow> response \<times> store" where
  "handle_offer_handler e ev = handler_boundary
     (case ev of
        No_Body \<Rightarrow> return (create_response 400 (error_body ''Missing request body''))
      | Bad_Json \<Rightarrow> return (create_response 400 (error_body ''Invalid JSON in request body''))
      | Body b \<Rightarrow>
         (case missing_field [''conversationId'', ''offerId'', ''action'', ''userId''] b of
            Some field \<Rightarrow>
              return (create_response 400 (error_body (''Missing required field: '' @ field)))
          | None \<Rightarrow>
              (let conversation_id = the (b ''conversationId'');
                   offer_id = the (b ''offerId'');
                   action = the (b ''action'');
                   user_id = the (b ''userId'')
               in if action \<notin> set [''accept'', ''reject'']
                  then return (create_response 400
                                 (error_body ''Action must be \"accept\" or \"reject\"''))
                  else
                  bind (get_item (fails e) Get_Conversation Conversations conversation_id) (\<lambda>conversation.
                  if conversation = None \<or> conversation = Some []
                     \<or> map_of (the conversation) ''userId'' \<noteq> Some (Str user_id)
                  then return (create_response 404 (error_body ''Conversation not found''))
                  else
                  bind (get_item (fails e) Get_Offer Offers offer_id) (\<lambda>offer.
                  if offer = None \<or> offer = Some []
                     \<or> map_of (the offer) ''conversationId'' \<noteq> Some (Str conversation_id)
                  then return (create_response 404 (error_body ''Offer not found''))
                  else if map_of (the offer) ''status'' \<noteq> Some (Str ''pending'')
                  then return (create_response 400 (error_body ''Offer is no longer available''))
                  else
                  (let timestamp = clock_a e
                   in bind (update_item (fails e) Update_Offer Offers offer_id
                              [(''status'', Str (if action = ''accept'' then ''accepted'' else ''rejected'')),
                               (''updatedAt'', Str timestamp)]) (\<lambda>_.
                      let outcome = (if action = ''accept'' then ''retained'' else ''cancelled'')
                      in bind (update_item (fails e) Close_Conversation Conversations conversation_id
                                 [(''status'', Str ''completed''),
                                  (''outcome'', Str outcome),
                                  (''updatedAt'', Str timestamp)]) (\<lambda>_.
                         bind (generate_final_message (choice_a e) action (the offer)) (\<lambda>final_message.
                         let final_message_item = final_message_item_of e conversation_id final_message
                         in bind (put_item (fails e) Put_Final_Message Messages final_message_item) (\<lambda>_.
                            return (create_response 200
                              (Obj [(''success'', Bool True),
                                    (''data'', Obj [(''outcome'', Str outcome),
                                                    (''message'', Obj final_message_item)])]))))))))))))"

section \<open>get\_conversation.py\<close>

definition handler_boundary_get :: "response cmd \<Rightarrow> store \<Rightarrow> response \<times> store" where
  "handler_boundary_get m s =
     (case m s of
        (Ok r, s') \<Rightarrow> (r, s')
      | (Raise, s') \<Rightarrow> (create_response_get 500 (error_body ''Internal server error''), s'))"

text \<open>
  The event of the read handler is the path parameter \<open>id\<close>, \<open>None\<close> when the path
  has none. The items of a query come in the order of the table.
\<close>

definition get_conversation_handler :: "env \<Rightarrow> string option \<Rightarrow> store \<Rightarrow> response \<times> store" where
  "get_conversation_handler e path_id = handler_boundary_get
     (if path_id = None \<or> path_id = Some []
      then return (create_response_get 400 (error_body ''Missing conversation ID''))
      else
      (let conversation_id = the path_id
       in bind (get_item (fails e) Get_Conversation Conversations conversation_id) (\<lambda>conversation.
          if conversation = None \<or> conversation = Some []
          then return (create_response_get 404 (error_body ''Conversation not found''))
          else
          bind (query_items (fails e) Query_Messages Messages conversation_id) (\<lambda>msgs.
          bind (query_items (fails e) Query_Offers Offers conversation_id) (\<lambda>offs.
          let conversation_data =
                AList.update ''offers'' (Lst (map Obj offs))
                  (AList.update ''messages'' (Lst (map Obj msgs)) (the conversation))
          in return (create_response_get 200
               (Obj [(''success'', Bool True), (''data'', Obj conversation_data)])))))))"

section \<open>The states that the handlers reach\<close>

definition empty_store :: store where
  "empty_store = \<lparr>conversations = [], messages = [], offers = [], faults_seen = 0\<rparr>"

text \<open>Requests are served one after the other, each with its own environment.\<close>

inductive reachable :: "store \<Rightarrow> bool" where
  initial: "reachable empty_store"
| start: "reachable s \<Longrightarrow> reachable (snd (start_conversation_handler e ev s))"
| send: "reachable s \<Longrightarrow> reachable (snd (send_message_handler e ev s))"
| offer: "reachable s \<Longrightarrow> reachable (snd (handle_offer_handler e ev s))"
| read: "reachable s \<Longrightarrow> reachable (snd (get_conversation_handler e path_id s))"




section \<open>Reading stored attributes; assertions on commands\<close>

text \<open>The attribute \<open>a\<close> of the item stored under the key \<open>k\<close>, if there is one.\<close>

definition attribute_of :: "table \<Rightarrow> string \<Rightarrow> string \<Rightarrow> val option" where
  "attribute_of t k a = (case map_of t k of Some it \<Rightarrow> map_of it a | None \<Rightarrow> None)"

text \<open>The title of an offer is text, as the data model has it, or absent.\<close>

definition title_is_text :: "item \<Rightarrow> bool" where
  "title_is_text off =
     (case map_of off ''title'' of None \<Rightarrow> True | Some (Str t) \<Rightarrow> True | Some _ \<Rightarrow> False)"

text \<open>
  \<open>valid P m Q E\<close>: from a store that satisfies \<open>P\<close>, the command \<open>m\<close> either returns
  \<open>a\<close> in a store that satisfies \<open>Q a\<close>, or raises in a store that satisfies \<open>E\<close>.
\<close>

definition valid ::
  "(store \<Rightarrow> bool) \<Rightarrow> 'a cmd \<Rightarrow> ('a \<Rightarrow> store \<Rightarrow> bool) \<Rightarrow> (store \<Rightarrow> bool) \<Rightarrow> bool" where
  "valid P m Q E = (\<forall>s. P s \<longrightarrow> (case m s of (Ok a, s') \<Rightarrow> Q a s' | (Raise, s') \<Rightarrow> E s'))"

text \<open>A command is quiet when it can only return with the fault count it started from.\<close>

abbreviation quiet :: "nat \<Rightarrow> 'a cmd \<Rightarrow> bool" where
  "quiet n m \<equiv> valid (\<lambda>s. faults_seen s = n) m (\<lambda>a s. faults_seen s = n) (\<lambda>s. True)"

text \<open>Every stored offer has a title that is text, or none.\<close>

definition titles_are_text :: "store \<Rightarrow> bool" where
  "titles_are_text s = list_all title_is_text (map snd (offers s))"

abbreviation keeps_titles :: "'a cmd \<Rightarrow> bool" where
  "keeps_titles m \<equiv> valid titles_are_text m (\<lambda>a. titles_are_text) titles_are_text"

section \<open>Example requests\<close>

definition env0 :: env where
  "env0 = \<lparr>uuid_a = ''uuid-a'', uuid_b = ''uuid-b'', uuid_c = ''uuid-c'',
           clock_a = ''2024-05-01T10:00:02Z'', clock_b = ''2024-05-01T10:00:03Z'',
           clock_week = ''2024-05-08T10:00:03Z'',
           choice_a = 0, choice_b = 1, random_a = 1/2, fails = no_faults\<rparr>"


definition send_body :: "string \<rightharpoonup> string" where
  "send_body = [''conversationId'' \<mapsto> ''conv-1'', ''message'' \<mapsto> ''it's too expensive for me'',
                ''userId'' \<mapsto> ''test-user-123'']"

definition accept_body :: "string \<rightharpoonup> string" where
  "accept_body = [''conversationId'' \<mapsto> ''conv-1'', ''offerId'' \<mapsto> ''offer-1'',
                  ''action'' \<mapsto> ''accept'', ''userId'' \<mapsto> ''test-user-123'']"

definition conversation1 :: "string \<Rightarrow> val \<Rightarrow> item" where
  "conversation1 status outcome =
     [(''id'', Str ''conv-1''), (''userId'', Str ''test-user-123''),
      (''subscriptionId'', Str ''sub-456''), (''status'', Str status), (''outcome'', outcome),
      (''reason'', Str ''too_expensive''), (''reasonText'', Str ''Too costly for me''),
      (''createdAt'', Str ''2024-05-01T10:00:00Z''), (''updatedAt'', Str ''2024-05-01T10:00:01Z'')]"

definition message1 :: "string \<Rightarrow> string \<Rightarrow> string \<Rightarrow> string \<Rightarrow> item" where
  "message1 k content sender timestamp =
     [(''id'', Str k), (''conversationId'', Str ''conv-1''), (''content'', Str content),
      (''sender'', Str sender), (''timestamp'', Str timestamp)]"

text \<open>One start request and one message exchange have been served: three messages.\<close>

definition messages1 :: table where
  "messages1 =
     [(''msg-1'', message1 ''msg-1'' (generate_initial_message ''too_expensive'' ''Too costly for me'')
                    ''ai'' ''2024-05-01T10:00:00Z''),
      (''msg-2'', message1 ''msg-2'' ''it's too expensive for me'' ''user'' ''2024-05-01T10:00:01Z''),
      (''msg-3'', message1 ''msg-3'' (pricing_responses ! 0) ''ai'' ''2024-05-01T10:00:01Z'')]"

definition store1 :: store where
  "store1 = \<lparr>conversations = [(''conv-1'', conversation1 ''active'' Null)],
             messages = messages1, offers = [], faults_seen = 0\<rparr>"

definition offer1 :: item where
  "offer1 =
     [(''id'', Str ''offer-1''), (''conversationId'', Str ''conv-1''), (''type'', Str ''discount''),
      (''title'', Str ''2 Months Free''),
      (''description'', Str ''Get 2 months completely free, then resume your regular billing cycle.''),
      (''savings'', Obj [(''monthly'', Num 30), (''total'', Num 60)]),
      (''details'', Obj [(''originalPrice'', Num 29.99), (''freeMonths'', Num 2)]),
      (''terms'', Lst [Str ''Offer valid for existing customers only'',
                       Str ''Cannot be combined with other offers'',
                       Str ''Subscription will auto-renew at regular price after promotional period'']),
      (''expiresAt'', Str ''2024-05-08T10:00:01Z''), (''createdAt'', Str ''2024-05-01T10:00:01Z''),
      (''status'', Str ''pending'')]"

text \<open>A conversation closed as cancelled that still has a pending offer.\<close>

definition store2 :: store where
  "store2 = \<lparr>conversations = [(''conv-1'', conversation1 ''completed'' (Str ''cancelled''))],
             messages = messages1, offers = [(''offer-1'', offer1)], faults_seen = 0\<rparr>"




section \<open>Strings: what \<open>contains\<close> decides\<close>





section \<open>The initial message\<close>

text \<open>
  C9: \<open>generate_initial_message\<close> is a function of the reason and the reason text
  alone (the source draws nothing at random there, and the model has no draw among its
  arguments): each known reason gives its fixed text, and for the reason
  \<open>other\<close> and for every unrecognised reason the text contains the reason text
  verbatim.
\<close>

theorem generate_initial_message_spec:
  "generate_initial_message ''too_expensive'' reason_text =
     ''I understand that cost is a concern. Let me see what special offers I can provide to make this more affordable for you.'' \<and>
   generate_initial_message ''not_using'' reason_text =
     ''I hear you - sometimes we sign up for things and don't use them as much as expected. Let me show you some options that might work better.'' \<and>
   generate_initial_message ''technical_issues'' reason_text =
     ''I'm sorry you're experiencing technical difficulties. Let me help resolve those issues and see what we can do to improve your experience.'' \<and>
   generate_initial_message ''found_alternative'' reason_text =
     ''I understand you've found another option. Before you go, let me show you some exclusive benefits that might change your mind.'' \<and>
   generate_initial_message ''other'' reason_text =
     ''Thank you for sharing that with me: '' @ reason_text @ ''. I'd like to understand your concerns better and see how we can address them.'' \<and>
   (reason \<notin> set [''too_expensive'', ''not_using'', ''technical_issues'', ''found_alternative'', ''other''] \<longrightarrow>
      generate_initial_message reason reason_text =
        ''I understand your concerns about: '' @ reason_text @ ''. Let me see what I can do to help address this situation.'') \<and>
   (reason = ''other'' \<or>
    reason \<notin> set [''too_expensive'', ''not_using'', ''technical_issues'', ''found_alternative'', ''other''] \<longrightarrow>
      (\<exists>p q. generate_initial_message reason reason_text = p @ reason_text @ q))"
proof -
  have other: "generate_initial_message ''other'' reason_text =
     ''Thank you for sharing that with me: '' @ reason_text @ ''. I'd like to understand your concerns better and see how we can address them.''"
    by (simp add: generate_initial_message_def)
  have unknown: "generate_initial_message reason reason_text =
        ''I understand your concerns about: '' @ reason_text @ ''. Let me see what I can do to help address this situation.''"
    if "reason \<notin> set [''too_expensive'', ''not_using'', ''technical_issues'', ''found_alternative'', ''other'']"
    using that by (simp add: generate_initial_message_def)
  have sub: "\<exists>p q. generate_initial_message reason reason_text = p @ reason_text @ q"
    if "reason = ''other'' \<or>
        reason \<notin> set [''too_expensive'', ''not_using'', ''technical_issues'', ''found_alternative'', ''other'']"
    using that
  proof
    assume "reason = ''other''"
    with other show ?thesis by blast
  next
    assume "reason \<notin> set [''too_expensive'', ''not_using'', ''technical_issues'', ''found_alternative'', ''other'']"
    from unknown [OF this] show ?thesis by blast
  qed
  have known:
    "generate_initial_message ''too_expensive'' reason_text =
     ''I understand that cost is a concern. Let me see what special offers I can provide to make this more affordable for you.''"
    "generate_initial_message ''not_using'' reason_text =
     ''I hear you - sometimes we sign up for things and don't use them as much as expected. Let me show you some options that might work better.''"
    "generate_initial_message ''technical_issues'' reason_text =
     ''I'm sorry you're experiencing technical difficulties. Let me help resolve those issues and see what we can do to improve your experience.''"
    "generate_initial_message ''found_alternative'' reason_text =
     ''I understand you've found another option. Before you go, let me show you some exclusive benefits that might change your mind.''"
    by (simp_all add: generate_initial_message_def)
  from known other unknown sub show ?thesis by blast
qed

theorem generate_initial_message_spec_witness:
  "generate_initial_message ''moving_abroad'' ''I am moving'' =
     ''I understand your concerns about: I am moving. Let me see what I can do to help address this situation.'' \<and>
   (\<exists>p q. generate_initial_message ''moving_abroad'' ''I am moving'' = p @ ''I am moving'' @ q) \<and>
   (\<exists>p q. generate_initial_message ''other'' ''I am moving'' = p @ ''I am moving'' @ q)"
proof -
  have n: "''moving_abroad'' \<notin> set [''too_expensive'', ''not_using'', ''technical_issues'', ''found_alternative'', ''other'']"
    by simp
  note t = generate_initial_message_spec [where reason = "''moving_abroad''" and reason_text = "''I am moving''"]
  note u = generate_initial_message_spec [where reason = "''other''" and reason_text = "''I am moving''"]
  have a: "generate_initial_message ''moving_abroad'' ''I am moving'' =
     ''I understand your concerns about: '' @ ''I am moving'' @ ''. Let me see what I can do to help address this situation.''"
    using t n by blast
  have b: "\<exists>p q. generate_initial_message ''moving_abroad'' ''I am moving'' = p @ ''I am moving'' @ q"
    using t n by blast
  have c: "\<exists>p q. generate_initial_message ''other'' ''I am moving'' = p @ ''I am moving'' @ q"
    using u by blast
  from a have a': "generate_initial_message ''moving_abroad'' ''I am moving'' =
     ''I understand your concerns about: I am moving. Let me see what I can do to help address this situation.''"
    by simp
  from a' b c show ?thesis by blast
qed

section \<open>The start handler\<close>

lemma attempt_no_faults: "attempt no_faults c m = m"
  by (rule ext) (simp add: attempt_def no_faults_def)

lemma bind_return: "bind (return a) f = f a"
  by (rule ext) (simp add: bind_def return_def)

lemma missing_field_none:
  "missing_field fs b = None \<longleftrightarrow> (\<forall>f \<in> set fs. b f \<noteq> None)"
  by (induction fs) auto



section \<open>The ownership check\<close>

text \<open>
  C6: a request that passes the field validation of the Message Handler or of the Offer
  Handler and names an existing conversation of another user is answered with 404
  \<open>Conversation not found\<close>, and the store stays as it was (the calls of the store
  succeed).
\<close>

theorem ownership_check:
  assumes "map_of (conversations s) conversation_id = Some c"
    and "map_of c ''userId'' \<noteq> Some (Str user_id)"
  shows "(b ''conversationId'' = Some conversation_id \<and> b ''message'' = Some user_message \<and>
          b ''userId'' = Some user_id \<longrightarrow>
          send_message_handler (e\<lparr>fails := no_faults\<rparr>) (Body b) s =
            (create_response 404 (error_body ''Conversation not found''), s)) \<and>
         (b' ''conversationId'' = Some conversation_id \<and> b' ''offerId'' = Some offer_id \<and>
          b' ''action'' = Some action \<and> action \<in> {''accept'', ''reject''} \<and>
          b' ''userId'' = Some user_id \<longrightarrow>
          handle_offer_handler (e\<lparr>fails := no_faults\<rparr>) (Body b') s =
            (create_response 404 (error_body ''Conversation not found''), s))"
proof (intro conjI impI)
  assume h: "b ''conversationId'' = Some conversation_id \<and> b ''message'' = Some user_message \<and>
          b ''userId'' = Some user_id"
  then have mf: "missing_field [''conversationId'', ''message'', ''userId''] b = None"
    by (simp add: missing_field_none)
  have g: "get_conversation no_faults conversation_id user_id s = (Ok None, s)"
    using assms by (simp add: get_conversation_def get_item_def attempt_no_faults)
  show "send_message_handler (e\<lparr>fails := no_faults\<rparr>) (Body b) s =
            (create_response 404 (error_body ''Conversation not found''), s)"
    unfolding send_message_handler_def using h
    by (simp add: mf Let_def bind_def g return_def handler_boundary_def del: missing_field.simps)
next
  assume h: "b' ''conversationId'' = Some conversation_id \<and> b' ''offerId'' = Some offer_id \<and>
          b' ''action'' = Some action \<and> action \<in> {''accept'', ''reject''} \<and>
          b' ''userId'' = Some user_id"
  then have mf: "missing_field [''conversationId'', ''offerId'', ''action'', ''userId''] b' = None"
    by (simp add: missing_field_none)
  from h have a: "action = ''accept'' \<or> action = ''reject''" by blast
  show "handle_offer_handler (e\<lparr>fails := no_faults\<rparr>) (Body b') s =
            (create_response 404 (error_body ''Conversation not found''), s)"
    unfolding handle_offer_handler_def using h assms a
    by (auto simp add: mf Let_def bind_def get_item_def attempt_no_faults return_def
        handler_boundary_def simp del: missing_field.simps)
qed

theorem ownership_check_witness:
  "map_of (conversations store1) ''conv-1'' = Some (conversation1 ''active'' Null) \<and>
   map_of (conversation1 ''active'' Null) ''userId'' \<noteq> Some (Str ''mallory'') \<and>
   send_message_handler env0 (Body (send_body(''userId'' \<mapsto> ''mallory''))) store1 =
     (create_response 404 (error_body ''Conversation not found''), store1) \<and>
   handle_offer_handler env0 (Body (accept_body(''userId'' \<mapsto> ''mallory''))) store1 =
     (create_response 404 (error_body ''Conversation not found''), store1)"
proof -
  have a: "map_of (conversations store1) ''conv-1'' = Some (conversation1 ''active'' Null)"
    by (simp add: store1_def)
  have b: "map_of (conversation1 ''active'' Null) ''userId'' \<noteq> Some (Str ''mallory'')"
    by (simp add: conversation1_def)
  have e: "env0\<lparr>fails := no_faults\<rparr> = env0" by (simp add: env0_def)
  have f: "(send_body(''userId'' \<mapsto> ''mallory'')) ''conversationId'' = Some ''conv-1'' \<and>
           (send_body(''userId'' \<mapsto> ''mallory'')) ''message'' = Some ''it's too expensive for me'' \<and>
           (send_body(''userId'' \<mapsto> ''mallory'')) ''userId'' = Some ''mallory''"
    by (simp add: send_body_def)
  have g: "(accept_body(''userId'' \<mapsto> ''mallory'')) ''conversationId'' = Some ''conv-1'' \<and>
           (accept_body(''userId'' \<mapsto> ''mallory'')) ''offerId'' = Some ''offer-1'' \<and>
           (accept_body(''userId'' \<mapsto> ''mallory'')) ''action'' = Some ''accept'' \<and>
           ''accept'' \<in> {''accept'', ''reject''} \<and>
           (accept_body(''userId'' \<mapsto> ''mallory'')) ''userId'' = Some ''mallory''"
    by (simp add: accept_body_def)
  note t = ownership_check [OF a b, where e = env0 and b = "send_body(''userId'' \<mapsto> ''mallory'')"
      and b' = "accept_body(''userId'' \<mapsto> ''mallory'')" and user_message = "''it's too expensive for me''"
      and offer_id = "''offer-1''" and action = "''accept''", unfolded e]
  from t f g a b show ?thesis by blast
qed

section \<open>The offer handler\<close>

lemma generate_final_message_ok:
  assumes "action = ''accept'' \<longrightarrow> title_is_text off"
  shows "\<exists>final_text. \<forall>s. generate_final_message i action off s = (Ok final_text, s)"
proof (cases "action = ''accept''")
  case True
  with assms have "title_is_text off" by simp
  then show ?thesis
    unfolding generate_final_message_def title_is_text_def using True
    by (auto split: option.splits val.splits)
next
  case False
  then show ?thesis by (simp add: generate_final_message_def)
qed

text \<open>What a well-formed request of the owner on a pending offer does, when no store call fails.\<close>

lemma handle_offer_success:
  assumes b: "b ''conversationId'' = Some conversation_id" "b ''offerId'' = Some offer_id"
      "b ''action'' = Some action" "b ''userId'' = Some user_id"
    and act: "action = ''accept'' \<or> action = ''reject''"
    and c: "map_of (conversations s) conversation_id = Some c"
      "map_of c ''userId'' = Some (Str user_id)"
    and off: "map_of (offers s) offer_id = Some off"
      "map_of off ''conversationId'' = Some (Str conversation_id)"
      "map_of off ''status'' = Some (Str ''pending'')"
    and title: "action = ''accept'' \<longrightarrow> title_is_text off"
  shows "\<exists>final_text. handle_offer_handler (e\<lparr>fails := no_faults\<rparr>) (Body b) s =
     (create_response 200
        (Obj [(''success'', Bool True),
              (''data'', Obj [(''outcome'', Str (if action = ''accept'' then ''retained'' else ''cancelled'')),
                              (''message'', Obj (final_message_item_of e conversation_id final_text))])]),
      s\<lparr>offers := AList.update offer_id
           (AList.update ''updatedAt'' (Str (clock_a e))
              (AList.update ''status'' (Str (if action = ''accept'' then ''accepted'' else ''rejected'')) off))
           (offers s),
        conversations := AList.update conversation_id
           (AList.update ''updatedAt'' (Str (clock_a e))
              (AList.update ''outcome'' (Str (if action = ''accept'' then ''retained'' else ''cancelled''))
                 (AList.update ''status'' (Str ''completed'') c)))
           (conversations s),
        messages := AList.update (uuid_a e) (final_message_item_of e conversation_id final_text) (messages s)\<rparr>)"
proof -
  from generate_final_message_ok [OF title] obtain final_text where
    t: "\<And>s. generate_final_message (choice_a e) action off s = (Ok final_text, s)" by blast
  from b have mf: "missing_field [''conversationId'', ''offerId'', ''action'', ''userId''] b = None"
    by (simp add: missing_field_none)
  from c have cne: "c \<noteq> []" by auto
  from off have one: "off \<noteq> []" by auto
  have fid: "map_of (final_message_item_of e' conversation_id final_text) ''id'' = Some (Str (uuid_a e'))" for e'
    by (simp add: final_message_item_of_def)
  have fe: "final_message_item_of (e\<lparr>fails := no_faults\<rparr>) conversation_id final_text =
            final_message_item_of e conversation_id final_text"
    by (simp add: final_message_item_of_def)
  have "handle_offer_handler (e\<lparr>fails := no_faults\<rparr>) (Body b) s =
     (create_response 200
        (Obj [(''success'', Bool True),
              (''data'', Obj [(''outcome'', Str (if action = ''accept'' then ''retained'' else ''cancelled'')),
                              (''message'', Obj (final_message_item_of e conversation_id final_text))])]),
      s\<lparr>offers := AList.update offer_id
           (AList.update ''updatedAt'' (Str (clock_a e))
              (AList.update ''status'' (Str (if action = ''accept'' then ''accepted'' else ''rejected'')) off))
           (offers s),
        conversations := AList.update conversation_id
           (AList.update ''updatedAt'' (Str (clock_a e))
              (AList.update ''outcome'' (Str (if action = ''accept'' then ''retained'' else ''cancelled''))
                 (AList.update ''status'' (Str ''completed'') c)))
           (conversations s),
        messages := AList.update (uuid_a e) (final_message_item_of e conversation_id final_text) (messages s)\<rparr>)"
    unfolding handle_offer_handler_def using act b c off cne one
    by (auto simp add: mf Let_def bind_def get_item_def update_item_def put_item_def attempt_no_faults
        return_def handler_boundary_def t fid fe simp del: missing_field.simps AList.update.simps)
  then show ?thesis by blast
qed


text \<open>
  C3: two accept calls on one pending offer, served one after the other by a store
  whose calls succeed. The first
  returns 200 with the outcome \<open>retained\<close>, marks the offer accepted and the
  conversation completed and retained; the second returns 400
  \<open>Offer is no longer available\<close> and leaves the store as the first call left it.
\<close>

theorem accept_twice:
  assumes b: "b ''conversationId'' = Some conversation_id" "b ''offerId'' = Some offer_id"
      "b ''action'' = Some ''accept''" "b ''userId'' = Some user_id"
    and c: "map_of (conversations s) conversation_id = Some c"
      "map_of c ''userId'' = Some (Str user_id)"
    and off: "map_of (offers s) offer_id = Some off"
      "map_of off ''conversationId'' = Some (Str conversation_id)"
      "map_of off ''status'' = Some (Str ''pending'')"
    and title: "title_is_text off"
  shows "\<exists>m s1.
     handle_offer_handler (e\<lparr>fails := no_faults\<rparr>) (Body b) s =
       (create_response 200
          (Obj [(''success'', Bool True),
                (''data'', Obj [(''outcome'', Str ''retained''), (''message'', Obj m)])]), s1) \<and>
     attribute_of (offers s1) offer_id ''status'' = Some (Str ''accepted'') \<and>
     attribute_of (conversations s1) conversation_id ''status'' = Some (Str ''completed'') \<and>
     attribute_of (conversations s1) conversation_id ''outcome'' = Some (Str ''retained'') \<and>
     handle_offer_handler (e'\<lparr>fails := no_faults\<rparr>) (Body b) s1 =
       (create_response 400 (error_body ''Offer is no longer available''), s1)"
proof -
  let ?off' = "AList.update ''updatedAt'' (Str (clock_a e))
                 (AList.update ''status'' (Str ''accepted'') off)"
  let ?c' = "AList.update ''updatedAt'' (Str (clock_a e))
               (AList.update ''outcome'' (Str ''retained'')
                  (AList.update ''status'' (Str ''completed'') c))"
  from handle_offer_success [OF b _ c off, where e = e] title
  obtain final_text where first:
    "handle_offer_handler (e\<lparr>fails := no_faults\<rparr>) (Body b) s =
       (create_response 200
          (Obj [(''success'', Bool True),
                (''data'', Obj [(''outcome'', Str ''retained''),
                                (''message'', Obj (final_message_item_of e conversation_id final_text))])]),
        s\<lparr>offers := AList.update offer_id ?off' (offers s),
          conversations := AList.update conversation_id ?c' (conversations s),
          messages := AList.update (uuid_a e) (final_message_item_of e conversation_id final_text)
                        (messages s)\<rparr>)"
    by auto
  let ?s1 = "s\<lparr>offers := AList.update offer_id ?off' (offers s),
          conversations := AList.update conversation_id ?c' (conversations s),
          messages := AList.update (uuid_a e) (final_message_item_of e conversation_id final_text)
                        (messages s)\<rparr>"
  have o1: "map_of (offers ?s1) offer_id = Some ?off'" by (simp add: update_conv')
  have c1: "map_of (conversations ?s1) conversation_id = Some ?c'" by (simp add: update_conv')
  have offa: "map_of ?off' ''status'' = Some (Str ''accepted'')"
    "map_of ?off' ''conversationId'' = Some (Str conversation_id)"
    using off by (simp_all add: update_conv')
  have ca: "map_of ?c' ''status'' = Some (Str ''completed'')"
    "map_of ?c' ''outcome'' = Some (Str ''retained'')"
    "map_of ?c' ''userId'' = Some (Str user_id)"
    using c by (simp_all add: update_conv')
  from offa have one: "?off' \<noteq> []" by auto
  from ca have cne: "?c' \<noteq> []" by auto
  from b have mf: "missing_field [''conversationId'', ''offerId'', ''action'', ''userId''] b = None"
    by (simp add: missing_field_none)
  have second: "handle_offer_handler (e'\<lparr>fails := no_faults\<rparr>) (Body b) ?s1 =
       (create_response 400 (error_body ''Offer is no longer available''), ?s1)"
    unfolding handle_offer_handler_def using b o1 c1 offa ca one cne
    by (simp add: mf Let_def bind_def get_item_def attempt_no_faults return_def
        handler_boundary_def del: missing_field.simps AList.update.simps)
  have attrs: "attribute_of (offers ?s1) offer_id ''status'' = Some (Str ''accepted'')"
    "attribute_of (conversations ?s1) conversation_id ''status'' = Some (Str ''completed'')"
    "attribute_of (conversations ?s1) conversation_id ''outcome'' = Some (Str ''retained'')"
    unfolding attribute_of_def o1 c1 using offa ca by simp_all
  from first second attrs show ?thesis by blast
qed

theorem accept_twice_witness:
  "map_of (offers (store1\<lparr>offers := [(''offer-1'', offer1)]\<rparr>)) ''offer-1'' = Some offer1 \<and>
   map_of offer1 ''status'' = Some (Str ''pending'') \<and> title_is_text offer1 \<and>
   (\<exists>m s1.
      handle_offer_handler env0 (Body accept_body) (store1\<lparr>offers := [(''offer-1'', offer1)]\<rparr>) =
        (create_response 200
           (Obj [(''success'', Bool True),
                 (''data'', Obj [(''outcome'', Str ''retained''), (''message'', Obj m)])]), s1) \<and>
      attribute_of (offers s1) ''offer-1'' ''status'' = Some (Str ''accepted'') \<and>
      handle_offer_handler env0 (Body accept_body) s1 =
        (create_response 400 (error_body ''Offer is no longer available''), s1))"
proof -
  let ?s = "store1\<lparr>offers := [(''offer-1'', offer1)]\<rparr>"
  have b: "accept_body ''conversationId'' = Some ''conv-1''" "accept_body ''offerId'' = Some ''offer-1''"
    "accept_body ''action'' = Some ''accept''" "accept_body ''userId'' = Some ''test-user-123''"
    by (simp_all add: accept_body_def)
  have c: "map_of (conversations ?s) ''conv-1'' = Some (conversation1 ''active'' Null)"
    "map_of (conversation1 ''active'' Null) ''userId'' = Some (Str ''test-user-123'')"
    by (simp_all add: store1_def conversation1_def)
  have off: "map_of (offers ?s) ''offer-1'' = Some offer1"
    "map_of offer1 ''conversationId'' = Some (Str ''conv-1'')"
    "map_of offer1 ''status'' = Some (Str ''pending'')"
    by (simp_all add: offer1_def)
  have title: "title_is_text offer1" by (simp add: title_is_text_def offer1_def)
  have e: "env0\<lparr>fails := no_faults\<rparr> = env0" by (simp add: env0_def)
  from accept_twice [OF b c off title, where e = env0 and e' = env0, unfolded e] off title
  show ?thesis by blast
qed

text \<open>
  C10: the offer handler does not read the status of the conversation. Whatever the
  stored conversation says, also when it is already completed, a well-formed accept or
  reject of the owner on a pending offer of that conversation returns 200 (the calls
  of the store succeed) and writes
  the status \<open>completed\<close> and the outcome of this action over the stored ones.
\<close>

theorem offer_on_closed_conversation:
  assumes b: "b ''conversationId'' = Some conversation_id" "b ''offerId'' = Some offer_id"
      "b ''action'' = Some action" "b ''userId'' = Some user_id"
    and act: "action = ''accept'' \<or> action = ''reject''"
    and c: "map_of (conversations s) conversation_id = Some c"
      "map_of c ''userId'' = Some (Str user_id)"
    and off: "map_of (offers s) offer_id = Some off"
      "map_of off ''conversationId'' = Some (Str conversation_id)"
      "map_of off ''status'' = Some (Str ''pending'')"
    and title: "title_is_text off"
  shows "\<exists>m s1.
     handle_offer_handler (e\<lparr>fails := no_faults\<rparr>) (Body b) s =
       (create_response 200
          (Obj [(''success'', Bool True),
                (''data'', Obj [(''outcome'', Str (if action = ''accept'' then ''retained'' else ''cancelled'')),
                                (''message'', Obj m)])]), s1) \<and>
     attribute_of (conversations s1) conversation_id ''status'' = Some (Str ''completed'') \<and>
     attribute_of (conversations s1) conversation_id ''outcome'' =
       Some (Str (if action = ''accept'' then ''retained'' else ''cancelled''))"
proof -
  let ?out = "Str (if action = ''accept'' then ''retained'' else ''cancelled'')"
  let ?c' = "AList.update ''updatedAt'' (Str (clock_a e))
               (AList.update ''outcome'' ?out (AList.update ''status'' (Str ''completed'') c))"
  from title have "action = ''accept'' \<longrightarrow> title_is_text off" by simp
  from handle_offer_success [OF b act c off this, where e = e]
  obtain m s1 where run:
    "handle_offer_handler (e\<lparr>fails := no_faults\<rparr>) (Body b) s =
       (create_response 200
          (Obj [(''success'', Bool True), (''data'', Obj [(''outcome'', ?out), (''message'', Obj m)])]), s1)"
    and s1: "conversations s1 = AList.update conversation_id ?c' (conversations s)"
    by force
  have "map_of (conversations s1) conversation_id = Some ?c'"
    unfolding s1 by (simp add: update_conv')
  moreover have "map_of ?c' ''status'' = Some (Str ''completed'')" "map_of ?c' ''outcome'' = Some ?out"
    by (simp_all add: update_conv')
  ultimately have "attribute_of (conversations s1) conversation_id ''status'' = Some (Str ''completed'')"
    "attribute_of (conversations s1) conversation_id ''outcome'' = Some ?out"
    by (simp_all add: attribute_of_def)
  with run show ?thesis by blast
qed


theorem offer_on_closed_conversation_witness:
  "attribute_of (conversations store2) ''conv-1'' ''status'' = Some (Str ''completed'') \<and>
   attribute_of (conversations store2) ''conv-1'' ''outcome'' = Some (Str ''cancelled'') \<and>
   map_of offer1 ''status'' = Some (Str ''pending'') \<and> title_is_text offer1 \<and>
   statusCode (fst (handle_offer_handler env0 (Body accept_body) store2)) = 200 \<and>
   attribute_of (conversations (snd (handle_offer_handler env0 (Body accept_body) store2)))
     ''conv-1'' ''outcome'' = Some (Str ''retained'')"
proof -
  have b: "accept_body ''conversationId'' = Some ''conv-1''" "accept_body ''offerId'' = Some ''offer-1''"
    "accept_body ''action'' = Some ''accept''" "accept_body ''userId'' = Some ''test-user-123''"
    by (simp_all add: accept_body_def)
  have act: "''accept'' = ''accept'' \<or> ''accept'' = ''reject''" by simp
  have c: "map_of (conversations store2) ''conv-1'' = Some (conversation1 ''completed'' (Str ''cancelled''))"
    "map_of (conversation1 ''completed'' (Str ''cancelled'')) ''userId'' = Some (Str ''test-user-123'')"
    by (simp_all add: store2_def conversation1_def)
  have off: "map_of (offers store2) ''offer-1'' = Some offer1"
    "map_of offer1 ''conversationId'' = Some (Str ''conv-1'')"
    "map_of offer1 ''status'' = Some (Str ''pending'')"
    by (simp_all add: store2_def offer1_def)
  have title: "title_is_text offer1" by (simp add: title_is_text_def offer1_def)
  have e: "env0\<lparr>fails := no_faults\<rparr> = env0" by (simp add: env0_def)
  have before: "attribute_of (conversations store2) ''conv-1'' ''status'' = Some (Str ''completed'')"
    "attribute_of (conversations store2) ''conv-1'' ''outcome'' = Some (Str ''cancelled'')"
    by (simp_all add: attribute_of_def store2_def conversation1_def)
  from offer_on_closed_conversation [OF b act c off title, where e = env0, unfolded e]
  obtain m s1 where
    "handle_offer_handler env0 (Body accept_body) store2 =
       (create_response 200
          (Obj [(''success'', Bool True),
                (''data'', Obj [(''outcome'', Str ''retained''), (''message'', Obj m)])]), s1)"
    "attribute_of (conversations s1) ''conv-1'' ''outcome'' = Some (Str ''retained'')"
    by auto
  then have "statusCode (fst (handle_offer_handler env0 (Body accept_body) store2)) = 200"
    "attribute_of (conversations (snd (handle_offer_handler env0 (Body accept_body) store2)))
     ''conv-1'' ''outcome'' = Some (Str ''retained'')"
    by (simp_all add: create_response_def)
  with before off title show ?thesis by blast
qed

section \<open>The message handler\<close>


















section \<open>The invariant of the conversations\<close>

lemma list_all_update:
  "list_all P (map snd t) \<Longrightarrow> P v \<Longrightarrow> list_all P (map snd (AList.update k v t))"
  by (induction t) auto

lemma list_all_lookup:
  "list_all P (map snd t) \<Longrightarrow> map_of t k = Some c \<Longrightarrow> P c"
  by (induction t) (auto split: if_splits)












section \<open>The timestamp of an exchange\<close>

lemma statusCode_create_response [simp]: "statusCode (create_response n v) = n"
  by (simp add: create_response_def)

lemma statusCode_send_response [simp]: "statusCode (send_response ai off) = 200"
  by (simp add: send_response_def Let_def split: option.splits)




section \<open>Failures of the store\<close>

lemma valid_bind:
  assumes m: "valid P m R E" and f: "\<And>a. valid (R a) (f a) Q E"
  shows "valid P (bind m f) Q E"
  unfolding valid_def
proof (intro allI impI)
  fix s assume p: "P s"
  obtain r s1 where ms: "m s = (r, s1)" by force
  from m p have after: "case m s of (Ok a, s') \<Rightarrow> R a s' | (Raise, s') \<Rightarrow> E s'"
    by (simp add: valid_def)
  show "case bind m f s of (Ok a, s') \<Rightarrow> Q a s' | (Raise, s') \<Rightarrow> E s'"
  proof (cases r)
    case (Ok a)
    from after ms Ok have "R a s1" by simp
    with f [of a] have "case f a s1 of (Ok a, s') \<Rightarrow> Q a s' | (Raise, s') \<Rightarrow> E s'"
      by (simp add: valid_def)
    then show ?thesis by (simp add: bind_def ms Ok)
  next
    case Raise
    from after ms Raise have "E s1" by simp
    then show ?thesis by (simp add: bind_def ms Raise)
  qed
qed







lemma quiet_query_items: "quiet n (query_items raises c t k)"
  by (simp add: valid_def query_items_def attempt_def)
















section \<open>The titles of the stored offers\<close>

lemma title_keeps:
  "a \<noteq> ''title'' \<Longrightarrow> title_is_text (AList.update a v it) = title_is_text it"
  by (simp add: title_is_text_def update_conv')

lemma offer_type_title: "subscript (offer_type ty title d sv dt) ''title'' = Str title"
  by (simp add: subscript_def offer_type_def)

lemma choice_in: "xs \<noteq> [] \<Longrightarrow> choice i xs \<in> set xs"
  by (simp add: choice_def)

lemma choice_of_two: "choice i [x, y] = x \<or> choice i [x, y] = y"
  using choice_in [of "[x, y]" i] by auto

lemma generated_title:
  "\<exists>t. subscript (choice i offer_types_too_expensive) ''title'' = Str t"
  "\<exists>t. subscript (choice i offer_types_technical_issues) ''title'' = Str t"
  "\<exists>t. subscript (choice i offer_types_not_using) ''title'' = Str t"
  "\<exists>t. subscript (choice i offer_types_default) ''title'' = Str t"
  unfolding offer_types_too_expensive_def offer_types_technical_issues_def
    offer_types_not_using_def offer_types_default_def
  using choice_of_two [of i] by (metis offer_type_title)+

lemma generate_retention_offer_title:
  "title_is_text (generate_retention_offer e conversation_id c)"
proof -
  have "\<exists>t. subscript (choice (choice_b e)
       (if (case map_of c ''reason'' of Some v \<Rightarrow> v | None \<Rightarrow> Str ''other'') = Str ''too_expensive''
          then offer_types_too_expensive
        else if (case map_of c ''reason'' of Some v \<Rightarrow> v | None \<Rightarrow> Str ''other'') = Str ''technical_issues''
          then offer_types_technical_issues
        else if (case map_of c ''reason'' of Some v \<Rightarrow> v | None \<Rightarrow> Str ''other'') = Str ''not_using''
          then offer_types_not_using
        else offer_types_default)) ''title'' = Str t"
    by (simp add: generated_title)
  then show ?thesis
    by (auto simp add: generate_retention_offer_def Let_def title_is_text_def)
qed

lemma titles_frame [simp]:
  "titles_are_text (s\<lparr>faults_seen := n\<rparr>) = titles_are_text s"
  "titles_are_text (s\<lparr>messages := m\<rparr>) = titles_are_text s"
  "titles_are_text (s\<lparr>conversations := c\<rparr>) = titles_are_text s"
  by (simp_all add: titles_are_text_def)

lemma keeps_return: "keeps_titles (return a)"
  by (simp add: valid_def return_def)

lemma keeps_bind: "keeps_titles m \<Longrightarrow> (\<And>a. keeps_titles (f a)) \<Longrightarrow> keeps_titles (bind m f)"
  by (rule valid_bind)

lemma keeps_get_item: "keeps_titles (get_item raises c t k)"
  by (simp add: valid_def get_item_def attempt_def)

lemma keeps_query_items: "keeps_titles (query_items raises c t k)"
  by (simp add: valid_def query_items_def attempt_def)

lemma keeps_put_elsewhere: "t \<noteq> Offers \<Longrightarrow> keeps_titles (put_item raises c t it)"
  by (cases t) (simp_all add: valid_def put_item_def attempt_def split: option.splits val.splits)

lemma keeps_put_offer: "title_is_text it \<Longrightarrow> keeps_titles (put_item raises c Offers it)"
  by (simp add: valid_def put_item_def attempt_def titles_are_text_def list_all_update
      split: option.splits val.splits)

lemma keeps_update_elsewhere: "t \<noteq> Offers \<Longrightarrow> keeps_titles (update_item raises c t k sets)"
  by (cases t) (simp_all add: valid_def update_item_def attempt_def Let_def)

lemma keeps_update_offer:
  "keeps_titles (update_item raises c Offers k [(''status'', v), (''updatedAt'', w)])"
proof -
  have "title_is_text (AList.update ''updatedAt'' w (AList.update ''status'' v old))"
    if "title_is_text old" for old
    using that by (simp add: title_keeps)
  moreover have "title_is_text [(''id'', Str k)]" by (simp add: title_is_text_def)
  ultimately show ?thesis
    by (auto simp add: valid_def update_item_def attempt_def Let_def titles_are_text_def
        intro!: list_all_update dest: list_all_lookup split: option.splits
        simp del: AList.update.simps)
qed

lemma keeps_generate_final_message: "keeps_titles (generate_final_message i action off)"
  by (simp add: valid_def generate_final_message_def split: option.splits val.splits)

lemma keeps_get_conversation: "keeps_titles (get_conversation raises conversation_id user_id)"
  by (simp add: valid_def get_conversation_def get_item_def attempt_def split: option.splits)

lemma keeps_get_message_count: "keeps_titles (get_message_count raises conversation_id)"
  by (simp add: valid_def get_message_count_def query_items_def attempt_def)

lemma keeps_offer_step: "keeps_titles (offer_step e conversation_id user_message c message_count)"
  unfolding offer_step_def
  by (auto simp add: Let_def generate_retention_offer_title
      intro!: keeps_bind keeps_return keeps_put_offer)

lemma keeps_boundary:
  "keeps_titles m \<Longrightarrow> titles_are_text s \<Longrightarrow> titles_are_text (snd (handler_boundary m s))"
  unfolding valid_def handler_boundary_def
  by (cases "m s") (auto split: outcome.splits)

lemma keeps_boundary_get:
  "keeps_titles m \<Longrightarrow> titles_are_text s \<Longrightarrow> titles_are_text (snd (handler_boundary_get m s))"
  unfolding valid_def handler_boundary_get_def
  by (cases "m s") (auto split: outcome.splits)

text \<open>
  Every offer of a reachable store has a title that is text: the message handler
  stores offers built from the literal candidates, and the offer handler sets no
  title. So the hypothesis \<open>title_is_text\<close> of the theorems on the offer handler
  excludes no store that the handlers produce.
\<close>

lemma reachable_titles: "reachable s \<Longrightarrow> titles_are_text s"
proof (induction rule: reachable.induct)
  case initial
  show ?case by (simp add: titles_are_text_def empty_store_def)
next
  case (start s e ev)
  then show ?case unfolding start_conversation_handler_def
    by (intro keeps_boundary)
      (auto simp add: Let_def split: event.splits option.splits
        intro!: keeps_bind keeps_return keeps_put_elsewhere)
next
  case (send s e ev)
  then show ?case unfolding send_message_handler_def
    by (intro keeps_boundary)
      (auto simp add: Let_def split: event.splits option.splits
        intro!: keeps_bind keeps_return keeps_put_elsewhere keeps_update_elsewhere
          keeps_get_conversation keeps_get_message_count keeps_offer_step)
next
  case (offer s e ev)
  then show ?case unfolding handle_offer_handler_def
    by (intro keeps_boundary)
      (auto simp add: Let_def split: event.splits option.splits
        intro!: keeps_bind keeps_return keeps_put_elsewhere keeps_update_elsewhere
          keeps_update_offer keeps_get_item keeps_generate_final_message)
next
  case (read s e path_id)
  then show ?case unfolding get_conversation_handler_def
    by (intro keeps_boundary_get)
      (auto simp add: Let_def intro!: keeps_bind keeps_return keeps_get_item keeps_query_items)
qed

lemma reachable_offer_title:
  "reachable s \<Longrightarrow> map_of (offers s) offer_id = Some off \<Longrightarrow> title_is_text off"
  using reachable_titles [of s] unfolding titles_are_text_def by (rule list_all_lookup)

end
